theory Spec2Isabelle
  imports Main
begin

section \<open>Data model\<close>

text \<open>
  A browser \<open>File\<close> as the program reads it: its \<open>name\<close>, its declared media
  type (\<open>file.type\<close>), and what \<open>FileReader.readAsDataURL\<close> leaves in
  \<open>reader.result\<close> when \<open>onloadend\<close> fires: the data URL, or \<open>null\<close>
  (here \<open>None\<close>) when the file could not be read.
\<close>

record File =
  name :: string
  type :: string
  readAsDataURL :: "string option"

text \<open>\<open>interface UploadedFile { id; file; preview }\<close> of types.ts.\<close>

record UploadedFile =
  id' :: string
  file' :: File
  preview :: string

datatype AppTab = tryon | generate | edit

datatype AspectRatio = R1x1 | R3x4 | R4x3 | R9x16 | R16x9

text \<open>
  The part of the browser the upload handlers touch: the clock behind
  \<open>Date.now()\<close>, and the registry of object URLs. \<open>URL.createObjectURL\<close>
  registers a fresh URL; only \<open>URL.revokeObjectURL\<close> would remove one.
\<close>

record Browser =
  now :: nat
  blobSerial :: nat
  objectURLs :: "string list"

text \<open>The \<open>useState\<close> cells of the \<open>App\<close> component.\<close>

record App =
  activeTab :: AppTab
  itemImages :: "UploadedFile list"
  userImage :: "UploadedFile option"
  sceneDescription :: string
  useThinkingMode :: bool
  generatePrompt :: string
  aspectRatio :: AspectRatio
  editPrompt :: string
  generatedImage :: "string option"
  analysisResult :: string
  isLoading :: bool
  error :: "string option"
  isZoomModalOpen :: bool

section \<open>JavaScript helpers\<close>

text \<open>Decimal rendering of a number inside a template literal.\<close>

fun showNat :: "nat \<Rightarrow> string" where
  "showNat n =
     (if n < 10 then [char_of (48 + n)]
      else showNat (n div 10) @ [char_of (48 + n mod 10)])"

declare showNat.simps [simp del]

text \<open>\<open>s.split(',')\<close>: the pieces between the commas, always at least one.\<close>

fun splitComma :: "string \<Rightarrow> string list" where
  "splitComma [] = [[]]"
| "splitComma (c # cs) =
     (if c = CHR '','' then [] # splitComma cs
      else (case splitComma cs of
              [] \<Rightarrow> [[c]]
            | p # ps \<Rightarrow> (c # p) # ps))"

text \<open>\<open>xs[i]\<close> on an array: \<open>undefined\<close> (here \<open>None\<close>) out of range.\<close>

fun index :: "'a list \<Rightarrow> nat \<Rightarrow> 'a option" where
  "index [] i = None"
| "index (x # xs) 0 = Some x"
| "index (x # xs) (Suc i) = index xs i"

text \<open>Truthiness of a \<open>string | null\<close> value: \<open>null\<close> and \<open>''\<close> are falsy.\<close>

fun truthy :: "string option \<Rightarrow> bool" where
  "truthy None = False"
| "truthy (Some s) = (s \<noteq> [])"

section \<open>Upload intake (handleItemFiles, handleUserFile, removeItem)\<close>

definition createObjectURL :: "Browser \<Rightarrow> string \<times> Browser" where
  "createObjectURL b =
     (let url = ''blob:'' @ showNat (blobSerial b)
      in (url, b\<lparr>blobSerial := Suc (blobSerial b), objectURLs := objectURLs b @ [url]\<rparr>))"

text \<open>
  The object literal both upload handlers build:
  \<open>{ id: `${file.name}-${Date.now()}`, file, preview: URL.createObjectURL(file) }\<close>.
\<close>

definition newUploadedFile :: "Browser \<Rightarrow> File \<Rightarrow> UploadedFile \<times> Browser" where
  "newUploadedFile b f =
     (let (url, b') = createObjectURL b
      in (\<lparr>id' = name f @ ''-'' @ showNat (now b), file' = f, preview = url\<rparr>, b'))"

text \<open>
  \<open>files.map(file => ({...}))\<close>, threading the browser through the calls. The
  clock is read once per file and does not advance while the handler runs.
\<close>

fun newUploadedFiles :: "Browser \<Rightarrow> File list \<Rightarrow> UploadedFile list \<times> Browser" where
  "newUploadedFiles b [] = ([], b)"
| "newUploadedFiles b (f # fs) =
     (let (u, b') = newUploadedFile b f;
          (us, b'') = newUploadedFiles b' fs
      in (u # us, b''))"

definition handleItemFiles :: "File list \<Rightarrow> Browser \<times> App \<Rightarrow> Browser \<times> App" where
  "handleItemFiles files w =
     (let (b, s) = w;
          (newUploadedFiles', b') = newUploadedFiles b files
      in (b', s\<lparr>itemImages := itemImages s @ newUploadedFiles'\<rparr>))"

definition handleUserFile :: "File list \<Rightarrow> Browser \<times> App \<Rightarrow> Browser \<times> App" where
  "handleUserFile files w =
     (let (b, s) = w
      in if length files > 0 then
           (let (u, b') = newUploadedFile b (hd files)
            in (b', s\<lparr>userImage := Some u\<rparr>))
         else (b, s))"

definition removeItem :: "string \<Rightarrow> Browser \<times> App \<Rightarrow> Browser \<times> App" where
  "removeItem i w =
     (let (b, s) = w
      in (b, s\<lparr>itemImages := filter (\<lambda>item. id' item \<noteq> i) (itemImages s)\<rparr>))"

section \<open>The upstream service as the client reads it\<close>

text \<open>
  What a handler's \<open>catch (e)\<close> can receive: an \<open>Error\<close> built by the program
  with its message, a \<open>TypeError\<close> raised by the engine with its message (an
  \<open>Error\<close> too, for \<open>instanceof\<close>), or a thrown value that is not an \<open>Error\<close>.
\<close>

datatype Thrown = Error string | TypeError string | NotAnError

text \<open>
  The \<open>TypeError\<close> of reading property \<open>p\<close> of \<open>undefined\<close>, and the one of
  iterating \<open>undefined\<close> with \<open>for ... of\<close>. The messages are worded as V8 words
  them; another engine words them differently, and nothing below depends on the
  wording, beyond its not being one of the program's own messages.
\<close>

definition sq :: string where
  "sq = [CHR 0x27]"

definition readOfUndefined :: "string \<Rightarrow> Thrown" where
  "readOfUndefined p =
     TypeError (''Cannot read properties of undefined (reading '' @ sq @ p @ sq @ '')'')"

definition notIterable :: Thrown where
  "notIterable = TypeError ''undefined is not iterable (cannot read property Symbol(Symbol.iterator))''"

text \<open>
  A request part: \<open>{ text }\<close> or \<open>{ inlineData: { data, mimeType } }\<close>. The data of
  an inline part is \<open>None\<close> where the JavaScript value is \<open>undefined\<close>.
\<close>

datatype Part = Text string | InlineData "string option" string

datatype Modality = IMAGE

datatype Config = ResponseModalities "Modality list" | ThinkingBudget nat

text \<open>
  One upstream call, with the arguments the client passes:
  \<open>generateContent({model, contents: {parts}, config})\<close> and
  \<open>generateImages({model, prompt, config: {numberOfImages, aspectRatio, outputMimeType}})\<close>.
\<close>

datatype Call =
    GenerateContent string "Part list" Config
  | GenerateImages string string nat AspectRatio string

text \<open>
  A response of \<open>generateContent\<close>, with every property the client reads on the way
  to an image: \<open>candidates\<close>, a candidate's \<open>content\<close>, a content's \<open>parts\<close>, a
  part's \<open>inlineData\<close> and its \<open>data\<close>. Each of them may be missing (\<open>None\<close> is
  \<open>undefined\<close>): a blocked prompt comes back without candidates, a candidate
  stopped for safety without content. The \<open>text\<close> accessor is taken as a string.
\<close>

record Blob =
  data :: "string option"

record ResponsePart =
  inlineData :: "Blob option"

record Content =
  parts :: "ResponsePart list option"

record Candidate =
  content :: "Content option"

record GenerateContentResponse =
  candidates :: "Candidate list option"
  text' :: string

text \<open>
  A response of \<open>generateImages\<close>, likewise: \<open>generatedImages\<close>, a generated
  image's \<open>image\<close> and its \<open>imageBytes\<close>.
\<close>

record Image =
  imageBytes :: "string option"

record GeneratedImage =
  image' :: "Image option"

record GenerateImagesResponse =
  generatedImages :: "GeneratedImage list option"

text \<open>The client \<open>ai.models\<close>: each call either throws or returns a response.\<close>

record GoogleGenAI =
  generateContent :: "string \<Rightarrow> Part list \<Rightarrow> Config \<Rightarrow> Thrown + GenerateContentResponse"
  generateImages ::
    "string \<Rightarrow> string \<Rightarrow> nat \<Rightarrow> AspectRatio \<Rightarrow> string \<Rightarrow> Thrown + GenerateImagesResponse"

section \<open>Encoding adapter and service calls (geminiService)\<close>

text \<open>
  \<open>fileToGenerativePart\<close>: the promise is built with \<open>resolve\<close> only. A string
  result resolves to \<open>result.split(',')[1]\<close>; any other result resolves to the
  empty string.
\<close>

definition base64EncodedData :: "File \<Rightarrow> string option" where
  "base64EncodedData f =
     (case readAsDataURL f of
        Some result \<Rightarrow> index (splitComma result) 1
      | None \<Rightarrow> Some [])"

definition fileToGenerativePart :: "File \<Rightarrow> Part" where
  "fileToGenerativePart f = InlineData (base64EncodedData f) (type f)"

text \<open>
  \<open>base64ToGenerativePart(base64Data, mimeType = 'image/jpeg')\<close>. The data is
  declared a string; the try-on handler passes on what \<open>generateLook\<close> returned,
  which is \<open>undefined\<close> (\<open>None\<close>) when the image part had no data.
\<close>

definition base64ToGenerativePart :: "string option \<Rightarrow> string option \<Rightarrow> Part" where
  "base64ToGenerativePart base64Data mimeType =
     InlineData base64Data (case mimeType of None \<Rightarrow> ''image/jpeg'' | Some m \<Rightarrow> m)"

text \<open>
  The loop \<open>for (const part of parts) if (part.inlineData) return ...\<close>: the
  \<open>inlineData\<close> of the first part that has one, \<open>None\<close> when the loop ends without
  returning.
\<close>

fun firstInlineData :: "ResponsePart list \<Rightarrow> Blob option" where
  "firstInlineData [] = None"
| "firstInlineData (p # ps) =
     (case inlineData p of Some b \<Rightarrow> Some b | None \<Rightarrow> firstInlineData ps)"

text \<open>
  The end of \<open>generateLook\<close> and of \<open>editImage\<close>:
  \<open>for (const part of response.candidates[0].content.parts)
       if (part.inlineData) return part.inlineData.data;
     throw new Error(msg);\<close>
  Every read of the chain is unguarded: \<open>candidates[0]\<close> with no \<open>candidates\<close>,
  \<open>.content\<close> with no first candidate, \<open>.parts\<close> with no content and the
  iteration with no parts each throw a \<open>TypeError\<close>. The value returned is the
  \<open>data\<close> of the part found, \<open>undefined\<close> (\<open>None\<close>) when it has none.
\<close>

definition imageOf :: "string \<Rightarrow> GenerateContentResponse \<Rightarrow> Thrown + string option" where
  "imageOf msg response =
     (case candidates response of
        None \<Rightarrow> Inl (readOfUndefined ''0'')
      | Some cs \<Rightarrow>
          (case index cs 0 of
             None \<Rightarrow> Inl (readOfUndefined ''content'')
           | Some c \<Rightarrow>
               (case content c of
                  None \<Rightarrow> Inl (readOfUndefined ''parts'')
                | Some ct \<Rightarrow>
                    (case parts ct of
                       None \<Rightarrow> Inl notIterable
                     | Some ps \<Rightarrow>
                         (case firstInlineData ps of
                            Some b \<Rightarrow> Inr (data b)
                          | None \<Rightarrow> Inl (Error msg))))))"

definition dq :: string where
  "dq = [CHR 0x22]"

definition lookPrompt :: "bool \<Rightarrow> string \<Rightarrow> string" where
  "lookPrompt withUser sceneDescription' =
     ''Generate a photorealistic image of a person in the following scene: '' @ dq
       @ sceneDescription' @ dq @ ''. ''
       @ (if withUser then
            ''The person in the image should be the person from the provided user photo, wearing the following items. Blend the items naturally onto the person.''
          else
            ''The person should be an AI-generated model, wearing the following items. The items should look natural on the model.'')"

definition lookParts :: "File list \<Rightarrow> File option \<Rightarrow> string \<Rightarrow> Part list" where
  "lookParts itemImages' userImage' sceneDescription' =
     (let itemImageParts = map fileToGenerativePart itemImages';
          promptParts = (case userImage' of
                           Some u \<Rightarrow> [fileToGenerativePart u]
                         | None \<Rightarrow> [])
      in Text (lookPrompt (userImage' \<noteq> None) sceneDescription') # promptParts @ itemImageParts)"

text \<open>
  Each service function returns its outcome and the upstream calls it issued. The
  image returned by \<open>generateLook\<close> and \<open>editImage\<close> is \<open>None\<close> where the
  JavaScript value is \<open>undefined\<close>.
\<close>

definition generateLook ::
  "GoogleGenAI \<Rightarrow> File list \<Rightarrow> File option \<Rightarrow> string \<Rightarrow>
   (Thrown + string option) \<times> Call list" where
  "generateLook ai itemImages' userImage' sceneDescription' =
     (let model = ''gemini-2.5-flash-image'';
          promptParts = lookParts itemImages' userImage' sceneDescription';
          config = ResponseModalities [IMAGE]
      in (case generateContent ai model promptParts config of
            Inl e \<Rightarrow> Inl e
          | Inr response \<Rightarrow> imageOf ''No image was generated.'' response,
          [GenerateContent model promptParts config]))"

definition analysisPrompt :: "string \<Rightarrow> string" where
  "analysisPrompt sceneDescription' =
     ''You are a world-class fashion stylist. Provide a detailed, professional fashion analysis of the outfit shown in the image, considering the described scene: ''
       @ dq @ sceneDescription' @ dq
       @ ''. Focus on style, color coordination, suitability for the occasion, and suggest potential improvements or alternative accessories.''"

definition analyzeLookWithThinking ::
  "GoogleGenAI \<Rightarrow> string option \<Rightarrow> string \<Rightarrow> (Thrown + string) \<times> Call list" where
  "analyzeLookWithThinking ai imageBase64 sceneDescription' =
     (let model = ''gemini-2.5-pro'';
          imagePart = base64ToGenerativePart imageBase64 (Some ''image/jpeg'');
          textPart = Text (analysisPrompt sceneDescription');
          config = ThinkingBudget 8192
      in (case generateContent ai model [textPart, imagePart] config of
            Inl e \<Rightarrow> Inl e
          | Inr response \<Rightarrow> Inr (text' response),
          [GenerateContent model [textPart, imagePart] config]))"

definition editImage ::
  "GoogleGenAI \<Rightarrow> string \<Rightarrow> string \<Rightarrow> (Thrown + string option) \<times> Call list" where
  "editImage ai imageBase64 editPrompt' =
     (let model = ''gemini-2.5-flash-image'';
          imagePart = base64ToGenerativePart (Some imageBase64) (Some ''image/jpeg'');
          textPart = Text editPrompt';
          config = ResponseModalities [IMAGE]
      in (case generateContent ai model [imagePart, textPart] config of
            Inl e \<Rightarrow> Inl e
          | Inr response \<Rightarrow> imageOf ''Could not edit the image.'' response,
          [GenerateContent model [imagePart, textPart] config]))"

definition generateImageFromText ::
  "GoogleGenAI \<Rightarrow> string \<Rightarrow> AspectRatio \<Rightarrow> (Thrown + string) \<times> Call list" where
  "generateImageFromText ai prompt aspectRatio' =
     (let model = ''imagen-4.0-generate-001''
      in (case generateImages ai model prompt 1 aspectRatio' ''image/jpeg'' of
            Inl e \<Rightarrow> Inl e
          | Inr response \<Rightarrow>
              (case generatedImages response of
                 None \<Rightarrow> Inl (readOfUndefined ''0'')
               | Some gs \<Rightarrow>
                   (case index gs 0 of
                      None \<Rightarrow> Inl (readOfUndefined ''image'')
                    | Some g \<Rightarrow>
                        (case image' g of
                           None \<Rightarrow> Inl (readOfUndefined ''imageBytes'')
                         | Some i \<Rightarrow>
                             (case imageBytes i of
                                None \<Rightarrow> Inl (Error ''Image generation failed.'')
                              | Some base64ImageBytes \<Rightarrow>
                                  if base64ImageBytes = [] then
                                    Inl (Error ''Image generation failed.'')
                                  else Inr base64ImageBytes)))),
          [GenerateImages model prompt 1 aspectRatio' ''image/jpeg'']))"

section \<open>Submit handlers of the App component\<close>

text \<open>\<open>e instanceof Error ? e.message : 'An unknown error occurred.'\<close>\<close>

definition errorMessage :: "Thrown \<Rightarrow> string" where
  "errorMessage e =
     (case e of
        Error m \<Rightarrow> m
      | TypeError m \<Rightarrow> m
      | NotAnError \<Rightarrow> ''An unknown error occurred.'')"

text \<open>
  The state updates each handler makes before its first \<open>await\<close>: the state the
  component shows while the request is in flight.
\<close>

definition lookSubmitted :: "App \<Rightarrow> App" where
  "lookSubmitted s = s\<lparr>isLoading := True, error := None, generatedImage := None, analysisResult := []\<rparr>"

definition imageSubmitted :: "App \<Rightarrow> App" where
  "imageSubmitted s = s\<lparr>isLoading := True, error := None, generatedImage := None, analysisResult := []\<rparr>"

definition editSubmitted :: "App \<Rightarrow> App" where
  "editSubmitted s = s\<lparr>isLoading := True, error := None\<rparr>"

text \<open>
  The \<open>catch\<close> block followed by the \<open>finally\<close> block, and the \<open>finally\<close> block
  alone.
\<close>

definition caught :: "Thrown \<Rightarrow> App \<Rightarrow> App" where
  "caught e s = s\<lparr>error := Some (errorMessage e), isLoading := False\<rparr>"

definition settled :: "App \<Rightarrow> App" where
  "settled s = s\<lparr>isLoading := False\<rparr>"

text \<open>
  Each handler is run to its end against the upstream's answers and returns the final
  state and the upstream calls issued, in order. It reads its inputs from the state
  it was started in, as the closure of the render does. \<open>setGeneratedImage\<close> with
  an \<open>undefined\<close> image stores \<open>None\<close>, as \<open>null\<close> is stored: the program only
  ever tests \<open>generatedImage\<close> for truthiness.
\<close>

definition handleGenerateLook :: "GoogleGenAI \<Rightarrow> App \<Rightarrow> App \<times> Call list" where
  "handleGenerateLook ai s =
     (if length (itemImages s) = 0 \<or> sceneDescription s = [] then
        (s\<lparr>error := Some ''Please upload at least one item and describe the scene.''\<rparr>, [])
      else
        (case generateLook ai (map file' (itemImages s)) (map_option file' (userImage s))
                (sceneDescription s) of
           (Inl e, calls) \<Rightarrow> (caught e (lookSubmitted s), calls)
         | (Inr imageBase64, calls) \<Rightarrow>
             (let s' = (lookSubmitted s)\<lparr>generatedImage := imageBase64\<rparr>
              in if useThinkingMode s then
                   (case analyzeLookWithThinking ai imageBase64 (sceneDescription s) of
                      (Inl e, calls') \<Rightarrow> (caught e s', calls @ calls')
                    | (Inr analysis, calls') \<Rightarrow>
                        (settled (s'\<lparr>analysisResult := analysis\<rparr>), calls @ calls'))
                 else (settled s', calls))))"

definition handleGenerateImage :: "GoogleGenAI \<Rightarrow> App \<Rightarrow> App \<times> Call list" where
  "handleGenerateImage ai s =
     (if generatePrompt s = [] then
        (s\<lparr>error := Some ''Please enter a prompt to generate an image.''\<rparr>, [])
      else
        (case generateImageFromText ai (generatePrompt s) (aspectRatio s) of
           (Inl e, calls) \<Rightarrow> (caught e (imageSubmitted s), calls)
         | (Inr imageBase64, calls) \<Rightarrow>
             (settled ((imageSubmitted s)\<lparr>generatedImage := Some imageBase64\<rparr>), calls)))"

definition handleEditImage :: "GoogleGenAI \<Rightarrow> App \<Rightarrow> App \<times> Call list" where
  "handleEditImage ai s =
     (case generatedImage s of
        None \<Rightarrow>
          (s\<lparr>error := Some ''Please generate an image first and enter an edit prompt.''\<rparr>, [])
      | Some generatedImage' \<Rightarrow>
          if generatedImage' = [] \<or> editPrompt s = [] then
            (s\<lparr>error := Some ''Please generate an image first and enter an edit prompt.''\<rparr>, [])
          else
            (case editImage ai generatedImage' (editPrompt s) of
               (Inl e, calls) \<Rightarrow> (caught e (editSubmitted s), calls)
             | (Inr imageBase64, calls) \<Rightarrow>
                 (settled ((editSubmitted s)\<lparr>generatedImage := imageBase64, editPrompt := []\<rparr>),
                  calls)))"

section \<open>The view: submit buttons and the output area\<close>

datatype Button = GenerateMyLook | GenerateImage | ApplyEdit

text \<open>
  A button is in the page when its tab's inputs are rendered; the edit controls are
  rendered under \<open>activeTab === 'edit' && generatedImage\<close>.
\<close>

fun rendered :: "App \<Rightarrow> Button \<Rightarrow> bool" where
  "rendered s GenerateMyLook = (activeTab s = tryon)"
| "rendered s GenerateImage = (activeTab s = generate)"
| "rendered s ApplyEdit = (activeTab s = edit \<and> truthy (generatedImage s))"

text \<open>
  The \<open>disabled\<close> attribute of each button: \<open>disabled={isLoading}\<close> on
  "Generate My Look" and "Apply Edit", no such attribute on "Generate Image".
\<close>

fun disabled :: "App \<Rightarrow> Button \<Rightarrow> bool" where
  "disabled s GenerateMyLook = isLoading s"
| "disabled s GenerateImage = False"
| "disabled s ApplyEdit = isLoading s"

fun onClick :: "GoogleGenAI \<Rightarrow> Button \<Rightarrow> App \<Rightarrow> App \<times> Call list" where
  "onClick ai GenerateMyLook s = handleGenerateLook ai s"
| "onClick ai GenerateImage s = handleGenerateImage ai s"
| "onClick ai ApplyEdit s = handleEditImage ai s"

text \<open>A click reaches the handler of a button that is in the page and not disabled.\<close>

definition click :: "GoogleGenAI \<Rightarrow> Button \<Rightarrow> App \<Rightarrow> App \<times> Call list" where
  "click ai b s = (if rendered s b \<and> \<not> disabled s b then onClick ai b s else (s, []))"

text \<open>
  What \<open>renderOutputArea\<close> shows: the spinner under \<open>isLoading\<close>, the error panel
  under \<open>!isLoading && error\<close>, the placeholder under
  \<open>!isLoading && !error && !generatedImage\<close>, the image under \<open>generatedImage\<close>,
  the analysis panel under \<open>analysisResult\<close>.
\<close>

record OutputArea =
  spinner :: bool
  errorPanel :: "string option"
  placeholder :: bool
  image :: "string option"
  analysisPanel :: "string option"

definition renderOutputArea :: "App \<Rightarrow> OutputArea" where
  "renderOutputArea s =
     \<lparr>spinner = isLoading s,
      errorPanel = (if \<not> isLoading s \<and> truthy (error s) then error s else None),
      placeholder = (\<not> isLoading s \<and> \<not> truthy (error s) \<and> \<not> truthy (generatedImage s)),
      image = (if truthy (generatedImage s) then generatedImage s else None),
      analysisPanel = (if analysisResult s \<noteq> [] then Some (analysisResult s) else None)\<rparr>"

text \<open>
  The request status the output area conveys, read off the same conditions: in flight
  under the spinner, failed under the error panel, otherwise succeeded when an image
  is held and idle when none is.
\<close>

datatype RequestStatus = Idle | Submitting | Succeeded | Failed string

definition requestStatus :: "App \<Rightarrow> RequestStatus" where
  "requestStatus s =
     (if isLoading s then Submitting
      else if truthy (error s) then Failed (the (error s))
      else if truthy (generatedImage s) then Succeeded
      else Idle)"

section \<open>Concrete inputs used in the examples\<close>

text \<open>The initial values of the \<open>useState\<close> cells.\<close>

definition initialApp :: App where
  "initialApp =
     \<lparr>activeTab = tryon, itemImages = [], userImage = None, sceneDescription = [],
      useThinkingMode = False, generatePrompt = [], aspectRatio = R1x1, editPrompt = [],
      generatedImage = None, analysisResult = [], isLoading = False, error = None,
      isZoomModalOpen = False\<rparr>"

definition initialBrowser :: Browser where
  "initialBrowser = \<lparr>now = 1700, blobSerial = 0, objectURLs = []\<rparr>"

text \<open>A readable PNG file, and a file of the same name whose read fails.\<close>

definition dressPng :: File where
  "dressPng = \<lparr>name = ''dress.png'', type = ''image/png'',
                 readAsDataURL = Some ''data:image/png;base64,QUJD''\<rparr>"

definition unreadablePng :: File where
  "unreadablePng = \<lparr>name = ''dress.png'', type = ''image/png'', readAsDataURL = None\<rparr>"

definition dressItem :: UploadedFile where
  "dressItem = \<lparr>id' = ''dress.png-1700'', file' = dressPng, preview = ''blob:0''\<rparr>"

text \<open>
  A scripted upstream: it answers the calls to \<open>gemini-2.5-pro\<close> with \<open>ana\<close>, the
  other \<open>generateContent\<close> calls with \<open>img\<close>, and \<open>generateImages\<close> with \<open>imgs\<close>.
\<close>

definition scriptedAI ::
  "Thrown + GenerateContentResponse \<Rightarrow> Thrown + GenerateContentResponse \<Rightarrow>
   Thrown + GenerateImagesResponse \<Rightarrow> GoogleGenAI" where
  "scriptedAI img ana imgs =
     \<lparr>generateContent = (\<lambda>model parts config.
                           if model = ''gemini-2.5-pro'' then ana else img),
      generateImages = (\<lambda>model prompt n ratio mime. imgs)\<rparr>"

text \<open>
  Responses of \<open>generateContent\<close>: one candidate whose parts are a text part and an
  image part with data \<open>d\<close>; one candidate with a text part only; no candidate.
\<close>

definition imageResponse :: "string \<Rightarrow> GenerateContentResponse" where
  "imageResponse d =
     \<lparr>candidates =
        Some [\<lparr>content = Some \<lparr>parts = Some [\<lparr>inlineData = None\<rparr>,
                                                 \<lparr>inlineData = Some \<lparr>data = Some d\<rparr>\<rparr>]\<rparr>\<rparr>],
      text' = []\<rparr>"

definition noImageResponse :: GenerateContentResponse where
  "noImageResponse =
     \<lparr>candidates = Some [\<lparr>content = Some \<lparr>parts = Some [\<lparr>inlineData = None\<rparr>]\<rparr>\<rparr>],
      text' = ''Sorry.''\<rparr>"

definition noCandidateResponse :: GenerateContentResponse where
  "noCandidateResponse = \<lparr>candidates = Some [], text' = []\<rparr>"

definition imagesResponse :: "string \<Rightarrow> GenerateImagesResponse" where
  "imagesResponse d =
     \<lparr>generatedImages = Some [\<lparr>image' = Some \<lparr>imageBytes = Some d\<rparr>\<rparr>]\<rparr>"

definition hatItem :: UploadedFile where
  "hatItem = \<lparr>id' = ''hat.png-1700'',
               file' = \<lparr>name = ''hat.png'', type = ''image/png'',
                          readAsDataURL = Some ''data:image/png;base64,REVG''\<rparr>,
               preview = ''blob:1''\<rparr>"

definition shoesItem :: UploadedFile where
  "shoesItem = \<lparr>id' = ''shoes.jpg-1700'',
                 file' = \<lparr>name = ''shoes.jpg'', type = ''image/jpeg'',
                            readAsDataURL = Some ''data:image/jpeg;base64,R0hJ''\<rparr>,
                 preview = ''blob:2''\<rparr>"

text \<open>Three uploaded items, and the browser that holds their three preview URLs.\<close>

definition threeItems :: App where
  "threeItems = initialApp\<lparr>itemImages := [dressItem, hatItem, shoesItem]\<rparr>"

definition threeUrls :: Browser where
  "threeUrls = \<lparr>now = 1700, blobSerial = 3, objectURLs = [''blob:0'', ''blob:1'', ''blob:2'']\<rparr>"

definition tryOnReady :: App where
  "tryOnReady = initialApp\<lparr>itemImages := [dressItem], sceneDescription := ''sunset park''\<rparr>"

definition editReady :: App where
  "editReady = tryOnReady\<lparr>activeTab := edit, generatedImage := Some ''T0xE'',
                           editPrompt := ''add a retro filter''\<rparr>"

text \<open>
  An edit is in flight on the image \<open>T0xE\<close>; the user has moved to the
  "Image Generation" tab and typed a prompt.
\<close>

definition editInFlight :: App where
  "editInFlight =
     (editSubmitted (initialApp\<lparr>generatedImage := Some ''T0xE'',
                                 editPrompt := ''add a retro filter''\<rparr>))
       \<lparr>activeTab := generate, generatePrompt := ''astronaut on Mars'', aspectRatio := R16x9\<rparr>"

section \<open>Facts about the service calls\<close>

lemma firstInlineData_None:
  "firstInlineData ps = None \<longleftrightarrow> (\<forall>p \<in> set ps. inlineData p = None)"
  by (induction ps) (auto split: option.splits)

text \<open>
  A response whose first candidate has content with parts, none of them an image part,
  makes the service function throw its own error.
\<close>

lemma imageOf_no_image:
  assumes "candidates r = Some (c # rest)" and "content c = Some ct" and "parts ct = Some ps"
    and "\<forall>p \<in> set ps. inlineData p = None"
  shows "imageOf msg r = Inl (Error msg)"
  using assms by (simp add: imageOf_def firstInlineData_None [THEN iffD2])

text \<open>A response on which a read of the chain fails makes it throw a \<open>TypeError\<close>.\<close>

lemma imageOf_type_errors:
  "imageOf msg \<lparr>candidates = None, text' = t\<rparr> = Inl (readOfUndefined ''0'')"
  "imageOf msg \<lparr>candidates = Some [], text' = t\<rparr> = Inl (readOfUndefined ''content'')"
  "imageOf msg \<lparr>candidates = Some (\<lparr>content = None\<rparr> # rest), text' = t\<rparr> =
     Inl (readOfUndefined ''parts'')"
  "imageOf msg \<lparr>candidates = Some (\<lparr>content = Some \<lparr>parts = None\<rparr>\<rparr> # rest), text' = t\<rparr> =
     Inl notIterable"
  by (simp_all add: imageOf_def)

lemma imageOf_Inr:
  "imageOf msg r = Inr i \<longleftrightarrow>
     (\<exists>c rest ct ps b. candidates r = Some (c # rest) \<and> content c = Some ct \<and>
        parts ct = Some ps \<and> firstInlineData ps = Some b \<and> data b = i)"
proof (cases "candidates r")
  case None
  then show ?thesis by (simp add: imageOf_def)
next
  case (Some cs)
  show ?thesis
  proof (cases cs)
    case Nil
    with Some show ?thesis by (simp add: imageOf_def)
  next
    case (Cons c rest)
    with Some show ?thesis
      by (auto simp: imageOf_def split: option.splits)
  qed
qed

lemma generateLook_Inr:
  "fst (generateLook ai fs u d) = Inr i \<longleftrightarrow>
     (\<exists>r c rest ct ps b.
        generateContent ai ''gemini-2.5-flash-image'' (lookParts fs u d)
          (ResponseModalities [IMAGE]) = Inr r \<and>
        candidates r = Some (c # rest) \<and> content c = Some ct \<and> parts ct = Some ps \<and>
        firstInlineData ps = Some b \<and> data b = i)"
proof (cases "generateContent ai ''gemini-2.5-flash-image'' (lookParts fs u d)
                (ResponseModalities [IMAGE])")
  case (Inl e)
  then show ?thesis by (simp add: generateLook_def)
next
  case (Inr r)
  then show ?thesis by (simp add: generateLook_def imageOf_Inr)
qed

text \<open>The upstream calls of a try-on, in the order they are issued.\<close>

lemma look_calls:
  "snd (handleGenerateLook ai s) =
     (if itemImages s = [] \<or> sceneDescription s = [] then []
      else GenerateContent ''gemini-2.5-flash-image''
             (lookParts (map file' (itemImages s)) (map_option file' (userImage s)) (sceneDescription s))
             (ResponseModalities [IMAGE]) #
           (case fst (generateLook ai (map file' (itemImages s)) (map_option file' (userImage s))
                        (sceneDescription s)) of
              Inl e \<Rightarrow> []
            | Inr imageBase64 \<Rightarrow>
                if useThinkingMode s then
                  [GenerateContent ''gemini-2.5-pro''
                     [Text (analysisPrompt (sceneDescription s)),
                      InlineData imageBase64 ''image/jpeg'']
                     (ThinkingBudget 8192)]
                else []))"
  by (simp add: handleGenerateLook_def generateLook_def analyzeLookWithThinking_def
      base64ToGenerativePart_def Let_def split: sum.splits prod.splits)

text \<open>
  The two buttons that carry \<open>disabled={isLoading}\<close> do nothing while a request is
  in flight.
\<close>

lemma disabled_buttons_noop:
  "isLoading s \<Longrightarrow> click ai GenerateMyLook s = (s, []) \<and> click ai ApplyEdit s = (s, [])"
  by (simp add: click_def)

text \<open>Two files of the same name dropped together get the same id.\<close>

lemma upload_two:
  "handleItemFiles [dressPng, dressPng] (initialBrowser, initialApp) =
     (\<lparr>now = 1700, blobSerial = 2, objectURLs = [''blob:0'', ''blob:1'']\<rparr>,
      initialApp\<lparr>itemImages :=
        [\<lparr>id' = ''dress.png-1700'', file' = dressPng, preview = ''blob:0''\<rparr>,
         \<lparr>id' = ''dress.png-1700'', file' = dressPng, preview = ''blob:1''\<rparr>]\<rparr>)"
  by code_simp

section \<open>Submitting while a request is in flight\<close>

text \<open>
  C1. A submit while \<open>isLoading\<close> holds should do nothing. The "Generate Image"
  button has no \<open>disabled\<close> attribute and \<open>handleGenerateImage\<close> does not look at
  \<open>isLoading\<close>: clicked while an edit is in flight, it issues a text-to-image call
  and the held image \<open>T0xE\<close> is replaced.
\<close>

theorem generate_click_while_loading:
  "isLoading editInFlight \<and>
   generatedImage editInFlight = Some ''T0xE'' \<and>
   generatedImage (imageSubmitted editInFlight) = None \<and>
   click (scriptedAI (Inl NotAnError) (Inl NotAnError) (Inr (imagesResponse ''SU1H'')))
       GenerateImage editInFlight =
     (editInFlight\<lparr>isLoading := False, generatedImage := Some ''SU1H''\<rparr>,
      [GenerateImages ''imagen-4.0-generate-001'' ''astronaut on Mars'' 1 R16x9 ''image/jpeg''])"
  by (simp add: click_def handleGenerateImage_def generateImageFromText_def editInFlight_def
      editSubmitted_def imageSubmitted_def settled_def initialApp_def scriptedAI_def
      imagesResponse_def)

section \<open>Try-on\<close>

text \<open>
  C3. A try-on with no item or with an empty scene description issues no upstream
  call and changes nothing but the error message, which is set to the validation
  message.
\<close>

theorem tryon_validation:
  assumes "itemImages s = [] \<or> sceneDescription s = []"
  shows "handleGenerateLook ai s =
           (s\<lparr>error := Some ''Please upload at least one item and describe the scene.''\<rparr>, [])"
  using assms by (auto simp: handleGenerateLook_def)

theorem tryon_validation_witness:
  "itemImages (initialApp\<lparr>sceneDescription := ''sunset park''\<rparr>) = [] \<and>
   handleGenerateLook (scriptedAI (Inl NotAnError) (Inl NotAnError) (Inl NotAnError))
       (initialApp\<lparr>sceneDescription := ''sunset park''\<rparr>) =
     (initialApp\<lparr>sceneDescription := ''sunset park'',
                  error := Some ''Please upload at least one item and describe the scene.''\<rparr>, [])"
proof -
  have h: "itemImages (initialApp\<lparr>sceneDescription := ''sunset park''\<rparr>) = []"
    by (simp add: initialApp_def)
  from h have "itemImages (initialApp\<lparr>sceneDescription := ''sunset park''\<rparr>) = [] \<or>
               sceneDescription (initialApp\<lparr>sceneDescription := ''sunset park''\<rparr>) = []" ..
  from tryon_validation [OF this] h show ?thesis by simp
qed

text \<open>
  C2, at a concrete input. The try-on asks for the analysis, the image call returns
  the image \<open>SU1H\<close> and the analysis call throws: the request ends as failed, with
  the thrown message stored, and not as succeeded.
\<close>

theorem analysis_failure_reported_failed:
  "requestStatus
     (fst (handleGenerateLook
             (scriptedAI (Inr (imageResponse ''SU1H'')) (Inl (Error ''analysis unavailable''))
                (Inl NotAnError))
             (tryOnReady\<lparr>useThinkingMode := True\<rparr>)))
     = Failed ''analysis unavailable'' \<and>
   error
     (fst (handleGenerateLook
             (scriptedAI (Inr (imageResponse ''SU1H'')) (Inl (Error ''analysis unavailable''))
                (Inl NotAnError))
             (tryOnReady\<lparr>useThinkingMode := True\<rparr>)))
     = Some ''analysis unavailable''"
  by (simp add: handleGenerateLook_def generateLook_def analyzeLookWithThinking_def
      scriptedAI_def imageResponse_def tryOnReady_def initialApp_def dressItem_def imageOf_def
      lookSubmitted_def caught_def errorMessage_def requestStatus_def)

text \<open>
  C2, as the handler has it. In a try-on with the analysis option, when the image call
  returns an image and the analysis call throws, the image stays held and shown and
  the analysis stays empty, but the thrown error's message is stored: with a non-empty
  message the output area shows the error panel and the request counts as failed.
  The image \<open>i\<close> is what the image call returned, \<open>Some\<close> of its data or \<open>None\<close>
  for a part without data.
\<close>

theorem analysis_failure_keeps_image:
  assumes "itemImages s \<noteq> []" and "sceneDescription s \<noteq> []" and "useThinkingMode s"
    and "fst (generateLook ai (map file' (itemImages s)) (map_option file' (userImage s))
                (sceneDescription s)) = Inr i"
    and "fst (analyzeLookWithThinking ai i (sceneDescription s)) = Inl e"
  shows "fst (handleGenerateLook ai s) =
           s\<lparr>isLoading := False, error := Some (errorMessage e), generatedImage := i,
              analysisResult := []\<rparr> \<and>
         image (renderOutputArea (fst (handleGenerateLook ai s))) = (if truthy i then i else None) \<and>
         analysisPanel (renderOutputArea (fst (handleGenerateLook ai s))) = None \<and>
         errorPanel (renderOutputArea (fst (handleGenerateLook ai s))) =
           (if errorMessage e = [] then None else Some (errorMessage e)) \<and>
         requestStatus (fst (handleGenerateLook ai s)) =
           (if errorMessage e \<noteq> [] then Failed (errorMessage e)
            else if truthy i then Succeeded else Idle)"
proof -
  have h: "fst (handleGenerateLook ai s) =
           s\<lparr>isLoading := False, error := Some (errorMessage e), generatedImage := i,
              analysisResult := []\<rparr>"
  proof -
    obtain c where c: "generateLook ai (map file' (itemImages s)) (map_option file' (userImage s))
                (sceneDescription s) = (Inr i, c)"
      using assms(4) by (metis prod.collapse)
    obtain c' where c': "analyzeLookWithThinking ai i (sceneDescription s) = (Inl e, c')"
      using assms(5) by (metis prod.collapse)
    show ?thesis using assms(1-3) c c'
      by (simp add: handleGenerateLook_def lookSubmitted_def caught_def)
  qed
  show ?thesis unfolding h by (simp add: renderOutputArea_def requestStatus_def)
qed

theorem analysis_failure_keeps_image_witness:
  "fst (handleGenerateLook
          (scriptedAI (Inr (imageResponse ''SU1H'')) (Inl (Error ''analysis unavailable''))
             (Inl NotAnError))
          (tryOnReady\<lparr>useThinkingMode := True\<rparr>)) =
     tryOnReady\<lparr>useThinkingMode := True, isLoading := False,
                 error := Some ''analysis unavailable'', generatedImage := Some ''SU1H'',
                 analysisResult := []\<rparr> \<and>
   image (renderOutputArea (fst (handleGenerateLook
          (scriptedAI (Inr (imageResponse ''SU1H'')) (Inl (Error ''analysis unavailable''))
             (Inl NotAnError))
          (tryOnReady\<lparr>useThinkingMode := True\<rparr>)))) = Some ''SU1H''"
proof -
  let ?ai = "scriptedAI (Inr (imageResponse ''SU1H'')) (Inl (Error ''analysis unavailable''))
             (Inl NotAnError)"
  let ?s = "tryOnReady\<lparr>useThinkingMode := True\<rparr>"
  have 1: "itemImages ?s \<noteq> []" by (simp add: tryOnReady_def)
  have 2: "sceneDescription ?s \<noteq> []" by (simp add: tryOnReady_def)
  have 3: "useThinkingMode ?s" by simp
  have 4: "fst (generateLook ?ai (map file' (itemImages ?s)) (map_option file' (userImage ?s))
                (sceneDescription ?s)) = Inr (Some ''SU1H'')"
    by (simp add: generateLook_def scriptedAI_def imageResponse_def imageOf_def)
  have 5: "fst (analyzeLookWithThinking ?ai (Some ''SU1H'') (sceneDescription ?s)) =
             Inl (Error ''analysis unavailable'')"
    by (simp add: analyzeLookWithThinking_def scriptedAI_def)
  from analysis_failure_keeps_image [OF 1 2 3 4 5] show ?thesis
    by (simp add: errorMessage_def renderOutputArea_def)
qed

text \<open>
  C8. In a try-on, a call to the analysis model is in the log only when the analysis
  option is set and the image call has returned a response whose first candidate
  holds an image part; the log is then exactly the image call followed by the
  analysis call, and the analysis call carries the data of that part, as the image
  call returned it.
\<close>

theorem analysis_after_image:
  assumes "GenerateContent ''gemini-2.5-pro'' qs cfg \<in> set (snd (handleGenerateLook ai s))"
  shows "\<exists>r c rest ct ps b.
           useThinkingMode s \<and>
           generateContent ai ''gemini-2.5-flash-image''
             (lookParts (map file' (itemImages s)) (map_option file' (userImage s)) (sceneDescription s))
             (ResponseModalities [IMAGE]) = Inr r \<and>
           candidates r = Some (c # rest) \<and> content c = Some ct \<and> parts ct = Some ps \<and>
           firstInlineData ps = Some b \<and>
           snd (handleGenerateLook ai s) =
             [GenerateContent ''gemini-2.5-flash-image''
                (lookParts (map file' (itemImages s)) (map_option file' (userImage s)) (sceneDescription s))
                (ResponseModalities [IMAGE]),
              GenerateContent ''gemini-2.5-pro''
                [Text (analysisPrompt (sceneDescription s)), InlineData (data b) ''image/jpeg'']
                (ThinkingBudget 8192)]"
proof -
  let ?g = "fst (generateLook ai (map file' (itemImages s)) (map_option file' (userImage s))
                   (sceneDescription s))"
  from assms have valid: "\<not> (itemImages s = [] \<or> sceneDescription s = [])"
    by (auto simp: look_calls split: if_splits)
  from assms valid obtain i where i: "?g = Inr i" and t: "useThinkingMode s"
    by (cases ?g) (auto simp: look_calls split: if_splits)
  from i obtain r c rest ct ps b where
    r: "generateContent ai ''gemini-2.5-flash-image''
          (lookParts (map file' (itemImages s)) (map_option file' (userImage s)) (sceneDescription s))
          (ResponseModalities [IMAGE]) = Inr r"
    and cs: "candidates r = Some (c # rest)" "content c = Some ct" "parts ct = Some ps"
      "firstInlineData ps = Some b" "data b = i"
    unfolding generateLook_Inr by blast
  have "snd (handleGenerateLook ai s) =
          [GenerateContent ''gemini-2.5-flash-image''
             (lookParts (map file' (itemImages s)) (map_option file' (userImage s)) (sceneDescription s))
             (ResponseModalities [IMAGE]),
           GenerateContent ''gemini-2.5-pro''
             [Text (analysisPrompt (sceneDescription s)), InlineData (data b) ''image/jpeg'']
             (ThinkingBudget 8192)]"
    using valid i t cs(5) by (simp add: look_calls)
  with r cs t show ?thesis by blast
qed

theorem analysis_after_image_witness:
  "GenerateContent ''gemini-2.5-pro''
     [Text (analysisPrompt ''sunset park''), InlineData (Some ''SU1H'') ''image/jpeg'']
     (ThinkingBudget 8192)
     \<in> set (snd (handleGenerateLook
                (scriptedAI (Inr (imageResponse ''SU1H''))
                   (Inr \<lparr>candidates = Some [], text' = ''Chic.''\<rparr>) (Inl NotAnError))
                (tryOnReady\<lparr>useThinkingMode := True\<rparr>))) \<and>
   length (snd (handleGenerateLook
                (scriptedAI (Inr (imageResponse ''SU1H''))
                   (Inr \<lparr>candidates = Some [], text' = ''Chic.''\<rparr>) (Inl NotAnError))
                (tryOnReady\<lparr>useThinkingMode := True\<rparr>))) = 2"
proof -
  let ?ai = "scriptedAI (Inr (imageResponse ''SU1H''))
                   (Inr \<lparr>candidates = Some [], text' = ''Chic.''\<rparr>) (Inl NotAnError)"
  let ?s = "tryOnReady\<lparr>useThinkingMode := True\<rparr>"
  have g: "fst (generateLook ?ai (map file' (itemImages ?s)) (map_option file' (userImage ?s))
                  (sceneDescription ?s)) = Inr (Some ''SU1H'')"
    by (simp add: generateLook_def scriptedAI_def imageResponse_def imageOf_def)
  have h: "GenerateContent ''gemini-2.5-pro''
     [Text (analysisPrompt ''sunset park''), InlineData (Some ''SU1H'') ''image/jpeg'']
     (ThinkingBudget 8192) \<in> set (snd (handleGenerateLook ?ai ?s))"
    unfolding look_calls g by (simp add: tryOnReady_def)
  from analysis_after_image [OF h] have "length (snd (handleGenerateLook ?ai ?s)) = 2"
    by auto
  with h show ?thesis by simp
qed

section \<open>A response without an image\<close>

text \<open>
  When the first candidate of the response has content with parts and none of the
  parts is an image part, a try-on and an edit end as failed with the service
  function's own message; a try-on leaves the state as it was but for the result and
  analysis cleared at submit, an edit leaves the held image in place.
\<close>

lemma no_image_parts_wellformed:
  assumes "candidates r = Some (c # rest)" and "content c = Some ct" and "parts ct = Some ps"
    and "\<forall>p \<in> set ps. inlineData p = None"
  shows
    "(itemImages s \<noteq> [] \<and> sceneDescription s \<noteq> [] \<and>
      generateContent ai ''gemini-2.5-flash-image''
        (lookParts (map file' (itemImages s)) (map_option file' (userImage s)) (sceneDescription s))
        (ResponseModalities [IMAGE]) = Inr r \<longrightarrow>
      fst (handleGenerateLook ai s) =
        s\<lparr>isLoading := False, error := Some ''No image was generated.'', generatedImage := None,
           analysisResult := []\<rparr> \<and>
      requestStatus (fst (handleGenerateLook ai s)) = Failed ''No image was generated.'') \<and>
     (generatedImage s = Some g \<and> g \<noteq> [] \<and> editPrompt s \<noteq> [] \<and>
      generateContent ai ''gemini-2.5-flash-image''
        [InlineData (Some g) ''image/jpeg'', Text (editPrompt s)]
        (ResponseModalities [IMAGE]) = Inr r \<longrightarrow>
      fst (handleEditImage ai s) = s\<lparr>isLoading := False, error := Some ''Could not edit the image.''\<rparr> \<and>
      requestStatus (fst (handleEditImage ai s)) = Failed ''Could not edit the image.'')"
proof (intro conjI impI)
  assume a: "itemImages s \<noteq> [] \<and> sceneDescription s \<noteq> [] \<and>
      generateContent ai ''gemini-2.5-flash-image''
        (lookParts (map file' (itemImages s)) (map_option file' (userImage s)) (sceneDescription s))
        (ResponseModalities [IMAGE]) = Inr r"
  show h: "fst (handleGenerateLook ai s) =
        s\<lparr>isLoading := False, error := Some ''No image was generated.'', generatedImage := None,
           analysisResult := []\<rparr>"
    using a imageOf_no_image [OF assms, of "''No image was generated.''"]
    by (simp add: handleGenerateLook_def generateLook_def caught_def lookSubmitted_def
        errorMessage_def)
  show "requestStatus (fst (handleGenerateLook ai s)) = Failed ''No image was generated.''"
    unfolding h by (simp add: requestStatus_def)
next
  assume a: "generatedImage s = Some g \<and> g \<noteq> [] \<and> editPrompt s \<noteq> [] \<and>
      generateContent ai ''gemini-2.5-flash-image''
        [InlineData (Some g) ''image/jpeg'', Text (editPrompt s)]
        (ResponseModalities [IMAGE]) = Inr r"
  show h: "fst (handleEditImage ai s) =
             s\<lparr>isLoading := False, error := Some ''Could not edit the image.''\<rparr>"
    using a imageOf_no_image [OF assms, of "''Could not edit the image.''"]
    by (simp add: handleEditImage_def editImage_def caught_def editSubmitted_def
        base64ToGenerativePart_def errorMessage_def)
  show "requestStatus (fst (handleEditImage ai s)) = Failed ''Could not edit the image.''"
    unfolding h by (simp add: requestStatus_def)
qed

text \<open>
  C4. A response with no image part should end a try-on or an edit with the service
  function's own error ("No image was generated.", "Could not edit the image."). A
  response with no candidate has no image part, yet the read
  \<open>response.candidates[0].content\<close> is unguarded: the engine throws a \<open>TypeError\<close>
  before the loop over the parts is reached, and it is the \<open>TypeError\<close>'s message
  that the handler stores. The request still ends as failed with the loading flag
  off, the try-on result cleared at submit and the image held before an edit in place.
\<close>

theorem no_candidate_type_error:
  "candidates noCandidateResponse = Some [] \<and>
   fst (generateLook (scriptedAI (Inr noCandidateResponse) (Inl NotAnError) (Inl NotAnError))
          (map file' (itemImages editReady)) (map_option file' (userImage editReady))
          (sceneDescription editReady)) =
     Inl (TypeError ''Cannot read properties of undefined (reading 'content')'') \<and>
   fst (editImage (scriptedAI (Inr noCandidateResponse) (Inl NotAnError) (Inl NotAnError))
          ''T0xE'' (editPrompt editReady)) =
     Inl (TypeError ''Cannot read properties of undefined (reading 'content')'') \<and>
   fst (handleGenerateLook (scriptedAI (Inr noCandidateResponse) (Inl NotAnError) (Inl NotAnError))
          editReady) =
     editReady\<lparr>isLoading := False,
                error := Some ''Cannot read properties of undefined (reading 'content')'',
                generatedImage := None, analysisResult := []\<rparr> \<and>
   error (fst (handleGenerateLook
          (scriptedAI (Inr noCandidateResponse) (Inl NotAnError) (Inl NotAnError)) editReady))
     \<noteq> Some ''No image was generated.'' \<and>
   fst (handleEditImage (scriptedAI (Inr noCandidateResponse) (Inl NotAnError) (Inl NotAnError))
          editReady) =
     editReady\<lparr>isLoading := False,
                error := Some ''Cannot read properties of undefined (reading 'content')''\<rparr> \<and>
   error (fst (handleEditImage
          (scriptedAI (Inr noCandidateResponse) (Inl NotAnError) (Inl NotAnError)) editReady))
     \<noteq> Some ''Could not edit the image.'' \<and>
   generatedImage (fst (handleEditImage
          (scriptedAI (Inr noCandidateResponse) (Inl NotAnError) (Inl NotAnError)) editReady))
     = Some ''T0xE''"
proof -
  let ?ai = "scriptedAI (Inr noCandidateResponse) (Inl NotAnError) (Inl NotAnError)"
  let ?m = "''Cannot read properties of undefined (reading 'content')''"
  have c: "candidates noCandidateResponse = Some []"
    by (simp add: noCandidateResponse_def)
  have t: "readOfUndefined ''content'' = TypeError ?m"
    by (simp add: readOfUndefined_def sq_def)
  have i: "imageOf msg noCandidateResponse = Inl (TypeError ?m)" for msg
    by (simp add: imageOf_def c t)
  have g: "generateLook ?ai (map file' (itemImages editReady)) (map_option file' (userImage editReady))
             (sceneDescription editReady) =
           (Inl (TypeError ?m),
            [GenerateContent ''gemini-2.5-flash-image''
               (lookParts (map file' (itemImages editReady)) (map_option file' (userImage editReady))
                  (sceneDescription editReady))
               (ResponseModalities [IMAGE])])"
    by (simp add: generateLook_def scriptedAI_def i)
  have e: "editImage ?ai ''T0xE'' (editPrompt editReady) =
           (Inl (TypeError ?m),
            [GenerateContent ''gemini-2.5-flash-image''
               [InlineData (Some ''T0xE'') ''image/jpeg'', Text (editPrompt editReady)]
               (ResponseModalities [IMAGE])])"
    by (simp add: editImage_def scriptedAI_def i base64ToGenerativePart_def)
  have hl: "fst (handleGenerateLook ?ai editReady) =
     editReady\<lparr>isLoading := False, error := Some ?m, generatedImage := None, analysisResult := []\<rparr>"
    unfolding handleGenerateLook_def g
    by (simp add: editReady_def tryOnReady_def caught_def lookSubmitted_def errorMessage_def)
  have he: "fst (handleEditImage ?ai editReady) = editReady\<lparr>isLoading := False, error := Some ?m\<rparr>"
  proof -
    have "generatedImage editReady = Some ''T0xE''" "editPrompt editReady \<noteq> []"
      by (simp_all add: editReady_def)
    then show ?thesis
      by (simp add: handleEditImage_def e caught_def editSubmitted_def errorMessage_def)
  qed
  have ml: "error (fst (handleGenerateLook ?ai editReady)) \<noteq> Some ''No image was generated.''"
    unfolding hl by simp
  have me: "error (fst (handleEditImage ?ai editReady)) \<noteq> Some ''Could not edit the image.''"
    unfolding he by simp
  have ge: "generatedImage (fst (handleEditImage ?ai editReady)) = Some ''T0xE''"
    unfolding he by (simp add: editReady_def)
  from c g e hl he ml me ge show ?thesis by simp
qed

section \<open>Encoding adapter\<close>

text \<open>
  C5. A file that cannot be read should make the encoding fail. Here the read leaves
  no string in \<open>reader.result\<close>, the promise resolves to the empty string, and the
  try-on call goes upstream with an inline part of empty data under the file's media
  type; no error is raised.
\<close>

theorem unreadable_file_sent_empty:
  "fileToGenerativePart unreadablePng = InlineData (Some []) ''image/png'' \<and>
   generateLook (scriptedAI (Inr (imageResponse ''SU1H'')) (Inl NotAnError) (Inl NotAnError))
       [unreadablePng] None ''sunset park'' =
     (Inr (Some ''SU1H''),
      [GenerateContent ''gemini-2.5-flash-image''
         [Text (lookPrompt False ''sunset park''), InlineData (Some []) ''image/png'']
         (ResponseModalities [IMAGE])])"
  by (simp add: fileToGenerativePart_def base64EncodedData_def unreadablePng_def generateLook_def
      lookParts_def scriptedAI_def imageResponse_def imageOf_def)

text \<open>
  C6, at a concrete input. A PNG file is encoded and wrapped, and its data is the
  image an edit works on: the upstream call carries the same data, declared
  \<open>image/jpeg\<close> and not \<open>image/png\<close>.
\<close>

theorem edit_media_type_not_preserved:
  "fileToGenerativePart dressPng = InlineData (Some ''QUJD'') ''image/png'' \<and>
   base64ToGenerativePart (Some ''QUJD'') (Some ''image/png'') = fileToGenerativePart dressPng \<and>
   snd (handleEditImage (scriptedAI (Inr (imageResponse ''SU1H'')) (Inl NotAnError) (Inl NotAnError))
          (initialApp\<lparr>activeTab := edit, generatedImage := Some ''QUJD'',
                       editPrompt := ''add a retro filter''\<rparr>)) =
     [GenerateContent ''gemini-2.5-flash-image''
        [InlineData (Some ''QUJD'') ''image/jpeg'', Text ''add a retro filter'']
        (ResponseModalities [IMAGE])] \<and>
   InlineData (Some ''QUJD'') ''image/jpeg'' \<noteq> fileToGenerativePart dressPng"
  by (simp add: fileToGenerativePart_def base64EncodedData_def dressPng_def
      base64ToGenerativePart_def handleEditImage_def editImage_def initialApp_def
      scriptedAI_def imageResponse_def imageOf_def)

text \<open>
  C6, as the service has it. Encoding a file and wrapping the encoded data under the
  file's media type gives the encoded part back, and an edit sends the same data
  upstream; but \<open>editImage\<close> takes the data alone and always declares it
  \<open>image/jpeg\<close>, so the media type of the upstream call equals the file's only
  for a JPEG file.
\<close>

theorem encode_wrap_edit_payload:
  assumes "base64EncodedData f = Some d"
  shows "base64ToGenerativePart (Some d) (Some (type f)) = fileToGenerativePart f \<and>
         snd (editImage ai d p) =
           [GenerateContent ''gemini-2.5-flash-image''
              [InlineData (Some d) ''image/jpeg'', Text p] (ResponseModalities [IMAGE])] \<and>
         (InlineData (Some d) ''image/jpeg'' = fileToGenerativePart f) = (type f = ''image/jpeg'')"
  using assms
  by (auto simp: base64ToGenerativePart_def fileToGenerativePart_def editImage_def Let_def)

theorem encode_wrap_edit_payload_witness:
  "base64EncodedData dressPng = Some ''QUJD'' \<and>
   snd (editImage (scriptedAI (Inr (imageResponse ''SU1H'')) (Inl NotAnError) (Inl NotAnError))
          ''QUJD'' ''add a retro filter'') =
     [GenerateContent ''gemini-2.5-flash-image''
        [InlineData (Some ''QUJD'') ''image/jpeg'', Text ''add a retro filter'']
        (ResponseModalities [IMAGE])]"
proof -
  have h: "base64EncodedData dressPng = Some ''QUJD''"
    by (simp add: base64EncodedData_def dressPng_def)
  from encode_wrap_edit_payload [OF h] h show ?thesis by simp
qed

section \<open>Upload intake\<close>

text \<open>
  C7, at a concrete input. Two files of the same name are uploaded together and get
  the same id; removing that id removes both items, and both preview URLs stay
  registered with the browser.
\<close>

theorem removeItem_duplicates_and_preview:
  "length (itemImages (snd (handleItemFiles [dressPng, dressPng] (initialBrowser, initialApp)))) = 2 \<and>
   itemImages (snd (removeItem ''dress.png-1700''
       (handleItemFiles [dressPng, dressPng] (initialBrowser, initialApp)))) = [] \<and>
   objectURLs (fst (removeItem ''dress.png-1700''
       (handleItemFiles [dressPng, dressPng] (initialBrowser, initialApp)))) = [''blob:0'', ''blob:1'']"
  unfolding upload_two by (simp add: removeItem_def initialApp_def)

text \<open>
  C7, as the handler has it. \<open>removeItem\<close> keeps, in order, the items whose id
  differs from the given one and drops every item that carries it; the browser's
  object URLs are left as they were. With no item of that id nothing changes; with
  pairwise distinct ids exactly one item goes.
\<close>

theorem removeItem_filters_by_id:
  "removeItem i (b, s) = (b, s\<lparr>itemImages := filter (\<lambda>item. id' item \<noteq> i) (itemImages s)\<rparr>) \<and>
   objectURLs (fst (removeItem i (b, s))) = objectURLs b \<and>
   (i \<notin> id' ` set (itemImages s) \<longrightarrow> removeItem i (b, s) = (b, s)) \<and>
   (distinct (map id' (itemImages s)) \<and> i \<in> id' ` set (itemImages s) \<longrightarrow>
      (\<exists>xs u ys. itemImages s = xs @ u # ys \<and> id' u = i \<and>
                 itemImages (snd (removeItem i (b, s))) = xs @ ys))"
proof (intro conjI impI)
  show "removeItem i (b, s) = (b, s\<lparr>itemImages := filter (\<lambda>item. id' item \<noteq> i) (itemImages s)\<rparr>)"
    by (simp add: removeItem_def)
  show "objectURLs (fst (removeItem i (b, s))) = objectURLs b"
    by (simp add: removeItem_def)
next
  assume "i \<notin> id' ` set (itemImages s)"
  then have "filter (\<lambda>item. id' item \<noteq> i) (itemImages s) = itemImages s"
    by (auto simp: filter_id_conv)
  then show "removeItem i (b, s) = (b, s)" by (simp add: removeItem_def)
next
  assume a: "distinct (map id' (itemImages s)) \<and> i \<in> id' ` set (itemImages s)"
  then obtain u where u: "u \<in> set (itemImages s)" "id' u = i" by auto
  then obtain xs ys where split: "itemImages s = xs @ u # ys"
    by (meson split_list)
  from a split have "i \<notin> id' ` set xs" "i \<notin> id' ` set ys"
    using u(2) by auto
  then have "filter (\<lambda>item. id' item \<noteq> i) xs = xs" "filter (\<lambda>item. id' item \<noteq> i) ys = ys"
    by (auto simp: filter_id_conv)
  with split u(2) have "itemImages (snd (removeItem i (b, s))) = xs @ ys"
    by (simp add: removeItem_def)
  with split u(2) show "\<exists>xs u ys. itemImages s = xs @ u # ys \<and> id' u = i \<and>
                 itemImages (snd (removeItem i (b, s))) = xs @ ys" by blast
qed

theorem removeItem_filters_by_id_witness:
  "distinct (map id' (itemImages threeItems)) \<and>
   ''hat.png-1700'' \<in> id' ` set (itemImages threeItems) \<and>
   removeItem ''hat.png-1700'' (threeUrls, threeItems) =
     (threeUrls, threeItems\<lparr>itemImages := [dressItem, shoesItem]\<rparr>) \<and>
   objectURLs (fst (removeItem ''hat.png-1700'' (threeUrls, threeItems))) =
     [''blob:0'', ''blob:1'', ''blob:2''] \<and>
   ''scarf.png-1700'' \<notin> id' ` set (itemImages threeItems) \<and>
   removeItem ''scarf.png-1700'' (threeUrls, threeItems) = (threeUrls, threeItems)"
proof -
  have ids: "map id' (itemImages threeItems) =
               [''dress.png-1700'', ''hat.png-1700'', ''shoes.jpg-1700'']"
    by (simp add: threeItems_def dressItem_def hatItem_def shoesItem_def)
  have 1: "''scarf.png-1700'' \<notin> id' ` set (itemImages threeItems)"
    unfolding set_map [symmetric] ids by simp
  have 2: "distinct (map id' (itemImages threeItems)) \<and>
           ''hat.png-1700'' \<in> id' ` set (itemImages threeItems)"
    unfolding set_map [symmetric] ids by simp
  note hat = removeItem_filters_by_id [of "''hat.png-1700''" threeUrls threeItems]
  note scarf = removeItem_filters_by_id [of "''scarf.png-1700''" threeUrls threeItems]
  from scarf 1
  have a: "removeItem ''scarf.png-1700'' (threeUrls, threeItems) = (threeUrls, threeItems)"
    by blast
  from hat 2 obtain xs u ys where split: "itemImages threeItems = xs @ u # ys"
    and u: "id' u = ''hat.png-1700''"
    and rest: "itemImages (snd (removeItem ''hat.png-1700'' (threeUrls, threeItems))) = xs @ ys"
    by blast
  from hat have eq: "removeItem ''hat.png-1700'' (threeUrls, threeItems) =
      (threeUrls, threeItems\<lparr>itemImages :=
         filter (\<lambda>item. id' item \<noteq> ''hat.png-1700'') (itemImages threeItems)\<rparr>)"
    by blast
  have f: "filter (\<lambda>item. id' item \<noteq> ''hat.png-1700'') (itemImages threeItems) =
             [dressItem, shoesItem]"
    by (simp add: threeItems_def dressItem_def hatItem_def shoesItem_def)
  from hat have urls: "objectURLs (fst (removeItem ''hat.png-1700'' (threeUrls, threeItems))) =
      objectURLs threeUrls"
    by blast
  from a 1 2 eq f urls show ?thesis by (simp add: threeUrls_def)
qed

text \<open>
  C9. \<open>handleUserFile\<close> on an empty sequence changes nothing; on a non-empty one it
  sets the reference image, whatever it held, to an item built from the first file
  alone (its name and the clock for the id, a fresh object URL for the preview), and
  the remaining files play no part.
\<close>

theorem handleUserFile_first_only:
  "handleUserFile [] w = w \<and>
   handleUserFile (f # fs) (b, s) =
     (snd (createObjectURL b),
      s\<lparr>userImage := Some \<lparr>id' = name f @ ''-'' @ showNat (now b), file' = f,
                             preview = fst (createObjectURL b)\<rparr>\<rparr>) \<and>
   handleUserFile (f # fs) (b, s) = handleUserFile [f] (b, s)"
  by (simp add: handleUserFile_def newUploadedFile_def split: prod.splits)

section \<open>Edit\<close>

text \<open>
  C10. Submitting an edit leaves the held image in place, where submitting a try-on
  or a generation clears it. An edit refused for a missing image or an empty
  instruction changes only the error message; an edit whose upstream call throws
  changes only the error message and the loading flag; a successful edit stores the
  image the call returned and empties the instruction. A try-on or a generation
  whose upstream call throws ends with no image held.
\<close>

theorem edit_keeps_image_on_failure:
  "generatedImage (editSubmitted s) = generatedImage s \<and>
   generatedImage (lookSubmitted s) = None \<and>
   generatedImage (imageSubmitted s) = None \<and>
   (\<not> truthy (generatedImage s) \<or> editPrompt s = [] \<longrightarrow>
      handleEditImage ai s =
        (s\<lparr>error := Some ''Please generate an image first and enter an edit prompt.''\<rparr>, [])) \<and>
   (\<forall>g e. generatedImage s = Some g \<and> g \<noteq> [] \<and> editPrompt s \<noteq> [] \<and>
      fst (editImage ai g (editPrompt s)) = Inl e \<longrightarrow>
      fst (handleEditImage ai s) = s\<lparr>isLoading := False, error := Some (errorMessage e)\<rparr>) \<and>
   (\<forall>g i. generatedImage s = Some g \<and> g \<noteq> [] \<and> editPrompt s \<noteq> [] \<and>
      fst (editImage ai g (editPrompt s)) = Inr i \<longrightarrow>
      fst (handleEditImage ai s) =
        s\<lparr>isLoading := False, error := None, generatedImage := i, editPrompt := []\<rparr>) \<and>
   (\<forall>e. itemImages s \<noteq> [] \<and> sceneDescription s \<noteq> [] \<and>
      fst (generateLook ai (map file' (itemImages s)) (map_option file' (userImage s))
             (sceneDescription s)) = Inl e \<longrightarrow>
      generatedImage (fst (handleGenerateLook ai s)) = None) \<and>
   (\<forall>e. generatePrompt s \<noteq> [] \<and>
      fst (generateImageFromText ai (generatePrompt s) (aspectRatio s)) = Inl e \<longrightarrow>
      generatedImage (fst (handleGenerateImage ai s)) = None)"
proof -
  have edit:
    "generatedImage (editSubmitted s) = generatedImage s \<and>
     generatedImage (lookSubmitted s) = None \<and>
     generatedImage (imageSubmitted s) = None \<and>
     (\<not> truthy (generatedImage s) \<or> editPrompt s = [] \<longrightarrow>
        handleEditImage ai s =
          (s\<lparr>error := Some ''Please generate an image first and enter an edit prompt.''\<rparr>, [])) \<and>
     (\<forall>g e. generatedImage s = Some g \<and> g \<noteq> [] \<and> editPrompt s \<noteq> [] \<and>
        fst (editImage ai g (editPrompt s)) = Inl e \<longrightarrow>
        fst (handleEditImage ai s) = s\<lparr>isLoading := False, error := Some (errorMessage e)\<rparr>) \<and>
     (\<forall>g i. generatedImage s = Some g \<and> g \<noteq> [] \<and> editPrompt s \<noteq> [] \<and>
        fst (editImage ai g (editPrompt s)) = Inr i \<longrightarrow>
        fst (handleEditImage ai s) =
          s\<lparr>isLoading := False, error := None, generatedImage := i, editPrompt := []\<rparr>)"
    by (cases "generatedImage s")
       (auto simp: handleEditImage_def editSubmitted_def lookSubmitted_def imageSubmitted_def
          caught_def settled_def split: prod.splits sum.splits)
  have look:
    "\<forall>e. itemImages s \<noteq> [] \<and> sceneDescription s \<noteq> [] \<and>
      fst (generateLook ai (map file' (itemImages s)) (map_option file' (userImage s))
             (sceneDescription s)) = Inl e \<longrightarrow>
      generatedImage (fst (handleGenerateLook ai s)) = None"
    by (auto simp: handleGenerateLook_def lookSubmitted_def caught_def split: prod.splits)
  have gen:
    "\<forall>e. generatePrompt s \<noteq> [] \<and>
      fst (generateImageFromText ai (generatePrompt s) (aspectRatio s)) = Inl e \<longrightarrow>
      generatedImage (fst (handleGenerateImage ai s)) = None"
    by (auto simp: handleGenerateImage_def imageSubmitted_def caught_def split: prod.splits)
  from edit look gen show ?thesis by blast
qed

theorem edit_keeps_image_on_failure_witness:
  "handleEditImage (scriptedAI (Inl (Error ''network down'')) (Inl NotAnError) (Inl NotAnError))
     initialApp =
     (initialApp\<lparr>error := Some ''Please generate an image first and enter an edit prompt.''\<rparr>, []) \<and>
   fst (handleEditImage (scriptedAI (Inl (Error ''network down'')) (Inl NotAnError) (Inl NotAnError))
     editReady) = editReady\<lparr>isLoading := False, error := Some ''network down''\<rparr> \<and>
   fst (handleEditImage (scriptedAI (Inr (imageResponse ''SU1H'')) (Inl NotAnError) (Inl NotAnError))
     editReady) =
     editReady\<lparr>isLoading := False, error := None, generatedImage := Some ''SU1H'', editPrompt := []\<rparr> \<and>
   generatedImage editReady = Some ''T0xE'' \<and>
   generatedImage
     (fst (handleGenerateLook
             (scriptedAI (Inl (Error ''network down'')) (Inl NotAnError) (Inl NotAnError))
             editReady)) = None \<and>
   generatedImage
     (fst (handleGenerateImage
             (scriptedAI (Inl NotAnError) (Inl NotAnError) (Inl (Error ''network down'')))
             (editReady\<lparr>generatePrompt := ''astronaut on Mars''\<rparr>))) = None"
proof -
  let ?down = "scriptedAI (Inl (Error ''network down'')) (Inl NotAnError) (Inl NotAnError)"
  let ?downImages = "scriptedAI (Inl NotAnError) (Inl NotAnError) (Inl (Error ''network down''))"
  let ?g = "editReady\<lparr>generatePrompt := ''astronaut on Mars''\<rparr>"
  let ?up = "scriptedAI (Inr (imageResponse ''SU1H'')) (Inl NotAnError) (Inl NotAnError)"
  have 0: "\<not> truthy (generatedImage initialApp) \<or> editPrompt initialApp = []"
    by (simp add: initialApp_def)
  have 1: "generatedImage editReady = Some ''T0xE'' \<and> ''T0xE'' \<noteq> [] \<and> editPrompt editReady \<noteq> [] \<and>
           fst (editImage ?down ''T0xE'' (editPrompt editReady)) = Inl (Error ''network down'')"
    by (simp add: editReady_def editImage_def scriptedAI_def)
  have 2: "generatedImage editReady = Some ''T0xE'' \<and> ''T0xE'' \<noteq> [] \<and> editPrompt editReady \<noteq> [] \<and>
           fst (editImage ?up ''T0xE'' (editPrompt editReady)) = Inr (Some ''SU1H'')"
    by (simp add: editReady_def editImage_def scriptedAI_def imageResponse_def imageOf_def)
  from edit_keeps_image_on_failure [of initialApp ?down] 0 have a:
    "handleEditImage ?down initialApp =
       (initialApp\<lparr>error := Some ''Please generate an image first and enter an edit prompt.''\<rparr>, [])"
    by blast
  from edit_keeps_image_on_failure [of editReady ?down] 1 have b:
    "fst (handleEditImage ?down editReady) =
       editReady\<lparr>isLoading := False, error := Some (errorMessage (Error ''network down''))\<rparr>"
    by blast
  from edit_keeps_image_on_failure [of editReady ?up] 2 have c:
    "fst (handleEditImage ?up editReady) =
       editReady\<lparr>isLoading := False, error := None, generatedImage := Some ''SU1H'', editPrompt := []\<rparr>"
    by blast
  have 3: "itemImages editReady \<noteq> [] \<and> sceneDescription editReady \<noteq> [] \<and>
           fst (generateLook ?down (map file' (itemImages editReady))
                  (map_option file' (userImage editReady)) (sceneDescription editReady)) =
             Inl (Error ''network down'')"
    by (simp add: editReady_def tryOnReady_def generateLook_def scriptedAI_def)
  have 4: "generatePrompt ?g \<noteq> [] \<and>
           fst (generateImageFromText ?downImages (generatePrompt ?g) (aspectRatio ?g)) =
             Inl (Error ''network down'')"
    by (simp add: generateImageFromText_def scriptedAI_def)
  from edit_keeps_image_on_failure [of editReady ?down] 3 have d:
    "generatedImage (fst (handleGenerateLook ?down editReady)) = None"
    by blast
  from edit_keeps_image_on_failure [of ?g ?downImages] 4 have e:
    "generatedImage (fst (handleGenerateImage ?downImages ?g)) = None"
    by blast
  have held: "generatedImage editReady = Some ''T0xE''"
    by (simp add: editReady_def)
  from a b c d e held show ?thesis by (simp add: errorMessage_def)
qed

end
